theory Spec2Isabelle
  imports Main "HOL-Library.Multiset"
begin

section \<open>Values of the client language\<close>

text \<open>
  Identifiers and the fixed texts of notices are strings; an optional property
  (\<^verbatim>\<open>questionId?: string\<close>) or a nullable value is an \<open>option\<close>. Vote counts are
  JavaScript numbers that only ever hold small integers, so they are \<open>int\<close>. What a user
  types (a title, a description, an answer) is a JavaScript string, a sequence of UTF-16
  code units, each a number below \<open>0x10000\<close>.
\<close>

type_synonym utf16 = "nat list"

definition truthy :: "string option \<Rightarrow> bool" where
  \<comment> \<open>the truthiness of a \<^verbatim>\<open>string | undefined | null\<close>: the empty string is falsy\<close>
  "truthy s = (case s of None \<Rightarrow> False | Some x \<Rightarrow> x \<noteq> [])"

definition or_null :: "int option \<Rightarrow> int option" where
  \<comment> \<open>\<^verbatim>\<open>userVote || null\<close>: 0 is falsy\<close>
  "or_null n = (case n of None \<Rightarrow> None | Some k \<Rightarrow> if k = 0 then None else Some k)"

definition or_zero :: "int option \<Rightarrow> int" where
  \<comment> \<open>\<^verbatim>\<open>currentUserVote || 0\<close>\<close>
  "or_zero n = (case n of None \<Rightarrow> 0 | Some k \<Rightarrow> k)"

definition is_space :: "nat \<Rightarrow> bool" where
  \<comment> \<open>what \<^verbatim>\<open>String.prototype.trim\<close> strips: the white space of the language (tab,
      vertical tab, form feed, the byte order mark U+FEFF and the space separators
      U+0020, U+00A0, U+1680, U+2000 to U+200A, U+202F, U+205F, U+3000) and its line
      terminators (line feed, carriage return, U+2028, U+2029)\<close>
  "is_space c =
     (c = 0x0009 \<or> c = 0x000A \<or> c = 0x000B \<or> c = 0x000C \<or> c = 0x000D \<or> c = 0x0020
      \<or> c = 0x00A0 \<or> c = 0x1680 \<or> (0x2000 \<le> c \<and> c \<le> 0x200A)
      \<or> c = 0x2028 \<or> c = 0x2029 \<or> c = 0x202F \<or> c = 0x205F \<or> c = 0x3000
      \<or> c = 0xFEFF)"

definition trim :: "utf16 \<Rightarrow> utf16" where
  "trim s = rev (dropWhile is_space (rev (dropWhile is_space s)))"

section \<open>Rows, remote calls and what a handler shows\<close>

text \<open>
  The rows carry the columns the pages read and write. In the \<open>answers\<close> table
  \<open>vote_count\<close>, \<open>is_accepted\<close> and \<open>created_at\<close> are nullable, as the generated row type
  \<^verbatim>\<open>Database['public']['Tables']['answers']['Row']\<close> says (\<^verbatim>\<open>number | null\<close>,
  \<^verbatim>\<open>boolean | null\<close>, \<^verbatim>\<open>string | null\<close>); a time stamp is the number of its instant. The
  question's \<open>vote_count\<close> is the number the page holds after \<^verbatim>\<open>question.vote_count || 0\<close>.
\<close>

record vote =
  v_user_id :: string
  v_question_id :: "string option"
  v_answer_id :: "string option"
  v_vote_type :: int

record Question =
  q_id :: string
  q_user_id :: string
  q_vote_count :: int
  q_accepted_answer_id :: "string option"

record Answer =
  a_id :: string
  a_question_id :: string
  a_user_id :: string
  a_content :: utf16
  a_vote_count :: "int option"
  a_is_accepted :: "bool option"
  a_created_at :: "int option"

datatype vote_column = Question_id | Answer_id

datatype remote_call =
    Auth_getUser
  | Votes_delete string vote_column "string option"
  | Votes_upsert vote vote_column
  | Rpc_accept_answer string string
  | Answers_insert utf16 string string
  | Questions_insert utf16 utf16 string
  | Question_tags_insert string string

text \<open>
  \<open>Votes_delete u c x\<close> is \<^verbatim>\<open>from('votes').delete().eq('user_id', u).eq(c, x)\<close>;
  \<open>Votes_upsert row c\<close> is \<^verbatim>\<open>from('votes').upsert(row, {onConflict: 'user_id,' + c})\<close>;
  \<open>Answers_insert content question_id user_id\<close>, \<open>Questions_insert title content user_id\<close>
  and \<open>Question_tags_insert question_id tag_id\<close> are the inserts of the pages.
\<close>

datatype effect =
    Toast string string
  | OnVoteChange int
  | OnAccept
  | Navigate string
  | FetchAnswers
  | FetchQuestion

datatype remote_error = Remote_error "string option"

section \<open>VoteButtons\<close>

text \<open>
  The component keeps three pieces of state and is told its target by two optional props.
  The callbacks \<^verbatim>\<open>onVoteChange\<close> and \<^verbatim>\<open>onAccept\<close> are not props of the model: a handler
  returns the calls it makes to them among its effects.
\<close>

record VoteButtonsProps =
  questionId :: "string option"
  answerId :: "string option"
  currentVoteCount :: int
  userVote :: "int option"
  isAccepted :: bool
  canAccept :: bool

record VoteButtons =
  voteCount :: int
  currentUserVote :: "int option"
  isVoting :: bool

definition mount :: "VoteButtonsProps \<Rightarrow> VoteButtons" where
  \<comment> \<open>the three \<^verbatim>\<open>useState\<close> initialisers\<close>
  "mount p = \<lparr>voteCount = currentVoteCount p, currentUserVote = or_null (userVote p),
              isVoting = False\<rparr>"

definition sync_props :: "VoteButtonsProps \<Rightarrow> VoteButtons \<Rightarrow> VoteButtons" where
  \<comment> \<open>the body of the \<^verbatim>\<open>useEffect\<close>\<close>
  "sync_props p s = s\<lparr>voteCount := currentVoteCount p, currentUserVote := or_null (userVote p)\<rparr>"

definition rerender :: "VoteButtonsProps \<Rightarrow> VoteButtonsProps \<Rightarrow> VoteButtons \<Rightarrow> VoteButtons" where
  \<comment> \<open>the effect runs when one of its dependencies \<^verbatim>\<open>[currentVoteCount, userVote]\<close> changed\<close>
  "rerender old new s =
     (if currentVoteCount new \<noteq> currentVoteCount old \<or> userVote new \<noteq> userVote old
      then sync_props new s else s)"

definition target_column :: "VoteButtonsProps \<Rightarrow> vote_column" where
  \<comment> \<open>\<^verbatim>\<open>questionId ? 'question_id' : 'answer_id'\<close>\<close>
  "target_column p = (if truthy (questionId p) then Question_id else Answer_id)"

definition target_id :: "VoteButtonsProps \<Rightarrow> string option" where
  \<comment> \<open>\<^verbatim>\<open>questionId || answerId\<close>\<close>
  "target_id p = (if truthy (questionId p) then questionId p else answerId p)"

definition voteData :: "VoteButtonsProps \<Rightarrow> string \<Rightarrow> int \<Rightarrow> vote" where
  "voteData p uid voteType =
     (if truthy (questionId p)
      then \<lparr>v_user_id = uid, v_question_id = questionId p, v_answer_id = None,
            v_vote_type = voteType\<rparr>
      else \<lparr>v_user_id = uid, v_question_id = None, v_answer_id = answerId p,
            v_vote_type = voteType\<rparr>)"

definition vote_failed :: effect where
  "vote_failed = Toast ''Error'' ''Failed to record your vote''"

definition handleVote ::
  "VoteButtonsProps \<Rightarrow> string option \<Rightarrow> bool \<Rightarrow> int \<Rightarrow> VoteButtons
     \<Rightarrow> VoteButtons \<times> remote_call list \<times> effect list" where
  \<comment> \<open>\<open>user\<close> is what \<^verbatim>\<open>supabase.auth.getUser()\<close> answers, \<open>failed\<close> whether the
      delete or upsert answers with an error; the result is the state after the
      \<^verbatim>\<open>finally\<close>, the remote calls issued in order, and what the user and the parent see\<close>
  "handleVote p user failed voteType s =
     (case user of
        None \<Rightarrow>
          (s\<lparr>isVoting := False\<rparr>, [Auth_getUser],
           [Toast ''Authentication required'' ''Please sign in to vote''])
      | Some uid \<Rightarrow>
          if currentUserVote s = Some voteType then
            (let call = Votes_delete uid (target_column p) (target_id p) in
             if failed then (s\<lparr>isVoting := False\<rparr>, [Auth_getUser, call], [vote_failed])
             else
               (let newVoteCount = voteCount s - voteType in
                (s\<lparr>voteCount := newVoteCount, currentUserVote := None, isVoting := False\<rparr>,
                 [Auth_getUser, call], [OnVoteChange newVoteCount])))
          else
            (let call = Votes_upsert (voteData p uid voteType) (target_column p) in
             if failed then (s\<lparr>isVoting := False\<rparr>, [Auth_getUser, call], [vote_failed])
             else
               (let voteDiff = voteType - or_zero (currentUserVote s);
                    newVoteCount = voteCount s + voteDiff in
                (s\<lparr>voteCount := newVoteCount, currentUserVote := Some voteType,
                   isVoting := False\<rparr>,
                 [Auth_getUser, call], [OnVoteChange newVoteCount]))))"

section \<open>The votes table\<close>

text \<open>
  Modelled from the spec: the hosted row datastore that executes the calls is an external
  collaborator and not part of the sources. It keeps the \<open>votes\<close> table, a list of rows;
  a delete removes the rows that satisfy every \<^verbatim>\<open>eq\<close> filter (a filter on an absent value
  matches no row); an upsert with conflict columns \<open>(user_id, c)\<close> overwrites the vote type
  of the row of that user with the same value in column \<open>c\<close>, and adds the row when there
  is none ("unique on (userId, questionId) and unique on (userId, answerId)"); a call that
  answers with an error changes nothing.
\<close>

definition column :: "vote_column \<Rightarrow> vote \<Rightarrow> string option" where
  "column c r = (case c of Question_id \<Rightarrow> v_question_id r | Answer_id \<Rightarrow> v_answer_id r)"

definition votes_delete :: "string \<Rightarrow> vote_column \<Rightarrow> string option \<Rightarrow> vote list \<Rightarrow> vote list" where
  "votes_delete uid c x tbl =
     filter (\<lambda>r. \<not> (v_user_id r = uid \<and> x \<noteq> None \<and> column c r = x)) tbl"

definition conflicts :: "vote_column \<Rightarrow> vote \<Rightarrow> vote \<Rightarrow> bool" where
  "conflicts c new r =
     (v_user_id r = v_user_id new \<and> column c new \<noteq> None \<and> column c r = column c new)"

definition votes_upsert :: "vote \<Rightarrow> vote_column \<Rightarrow> vote list \<Rightarrow> vote list" where
  "votes_upsert new c tbl =
     (if list_ex (conflicts c new) tbl
      then map (\<lambda>r. if conflicts c new r then r\<lparr>v_vote_type := v_vote_type new\<rparr> else r) tbl
      else tbl @ [new])"

fun run_call :: "remote_call \<Rightarrow> vote list \<Rightarrow> vote list" where
  "run_call (Votes_delete uid c x) tbl = votes_delete uid c x tbl"
| "run_call (Votes_upsert new c) tbl = votes_upsert new c tbl"
| "run_call _ tbl = tbl"

definition live_votes :: "vote_column \<Rightarrow> string \<Rightarrow> vote list \<Rightarrow> vote list" where
  \<comment> \<open>the live vote rows of a target\<close>
  "live_votes c x tbl = filter (\<lambda>r. column c r = Some x) tbl"

definition vote_sum :: "vote_column \<Rightarrow> string \<Rightarrow> vote list \<Rightarrow> int" where
  \<comment> \<open>\<^verbatim>\<open>sum(voteType) over all votes where target = X\<close>\<close>
  "vote_sum c x tbl = sum_list (map v_vote_type (live_votes c x tbl))"

definition votes_of :: "string \<Rightarrow> vote_column \<Rightarrow> string \<Rightarrow> vote list \<Rightarrow> int list" where
  \<comment> \<open>the vote types of the live rows of one user on a target\<close>
  "votes_of uid c x tbl = map v_vote_type (filter (\<lambda>r. v_user_id r = uid) (live_votes c x tbl))"

definition castVote ::
  "VoteButtonsProps \<Rightarrow> string option \<Rightarrow> bool \<Rightarrow> int \<Rightarrow> VoteButtons \<times> vote list
     \<Rightarrow> (VoteButtons \<times> vote list) \<times> effect list" where
  \<comment> \<open>\<open>handleVote\<close> together with the table its calls act on\<close>
  "castVote p user failed voteType st =
     (case handleVote p user failed voteType (fst st) of
        (s', calls, shown) \<Rightarrow>
          ((s', if failed then snd st else fold run_call calls (snd st)), shown))"

section \<open>QuestionDetail: how the page mounts VoteButtons\<close>

text \<open>
  QuestionDetail is the only place that renders VoteButtons: once for the question and
  once per answer. In both places \<^verbatim>\<open>currentVoteCount\<close> is the page's copy of the row's
  \<^verbatim>\<open>vote_count\<close>, \<^verbatim>\<open>onVoteChange\<close> writes the new count into that copy, and \<^verbatim>\<open>userVote\<close>
  is not passed; the page never reads the votes table. A successful \<open>handleVote\<close>
  therefore changes the prop \<^verbatim>\<open>currentVoteCount\<close>, and the component's effect on
  \<^verbatim>\<open>[currentVoteCount, userVote]\<close> runs after the render.
\<close>

definition questionVoteProps :: "Question \<Rightarrow> VoteButtonsProps" where
  \<comment> \<open>the buttons of the question: no \<^verbatim>\<open>answerId\<close>, no \<^verbatim>\<open>userVote\<close>\<close>
  "questionVoteProps q =
     \<lparr>questionId = Some (q_id q), answerId = None, currentVoteCount = q_vote_count q,
      userVote = None, isAccepted = False, canAccept = False\<rparr>"

definition answerVoteProps :: "string option \<Rightarrow> Question \<Rightarrow> Answer \<Rightarrow> VoteButtonsProps" where
  \<comment> \<open>the buttons of an answer: both ids are passed, and no \<^verbatim>\<open>userVote\<close>;
      \<^verbatim>\<open>currentVoteCount={answer.vote_count || 0}\<close>, \<^verbatim>\<open>isAccepted={answer.is_accepted}\<close>
      (a null flag is falsy wherever the buttons test it),
      \<^verbatim>\<open>canAccept={user?.id === question.user_id && !question.accepted_answer_id}\<close>\<close>
  "answerVoteProps user q a =
     \<lparr>questionId = Some (q_id q), answerId = Some (a_id a),
      currentVoteCount = or_zero (a_vote_count a),
      userVote = None, isAccepted = (a_is_accepted a = Some True),
      canAccept = (user = Some (q_user_id q) \<and> \<not> truthy (q_accepted_answer_id q))\<rparr>"

fun onVoteChange_question :: "effect \<Rightarrow> Question \<Rightarrow> Question" where
  \<comment> \<open>\<^verbatim>\<open>setQuestion(prev => prev ? { ...prev, vote_count: newCount } : null)\<close>\<close>
  "onVoteChange_question (OnVoteChange newCount) q = q\<lparr>q_vote_count := newCount\<rparr>"
| "onVoteChange_question _ q = q"

definition clickQuestionVote ::
  "string option \<Rightarrow> bool \<Rightarrow> int \<Rightarrow> (Question \<times> VoteButtons) \<times> vote list
     \<Rightarrow> (Question \<times> VoteButtons) \<times> vote list" where
  \<comment> \<open>a click on a vote button of the question, on the page: \<open>handleVote\<close>, then the
      parent's \<^verbatim>\<open>onVoteChange\<close>, then the render with the new props and its effect\<close>
  "clickQuestionVote user failed voteType st =
     (let q = fst (fst st);
          p = questionVoteProps q in
      case castVote p user failed voteType (snd (fst st), snd st) of
        ((s', tbl'), shown) \<Rightarrow>
          (let q' = fold onVoteChange_question shown q in
           ((q', rerender p (questionVoteProps q') s'), tbl')))"

definition open_page :: "Question \<Rightarrow> Question \<times> VoteButtons" where
  \<comment> \<open>the page of one user after loading the question\<close>
  "open_page q = (q, mount (questionVoteProps q))"

fun user_clicks ::
  "string \<Rightarrow> int \<Rightarrow> (string \<times> Question \<times> VoteButtons) list \<Rightarrow> vote list
     \<Rightarrow> (string \<times> Question \<times> VoteButtons) list \<times> vote list" where
  \<comment> \<open>several signed-in users, each with a page of their own, and the one table\<close>
  "user_clicks u voteType [] tbl = ([], tbl)"
| "user_clicks u voteType ((w, c) # cs) tbl =
     (if w = u
      then (case clickQuestionVote (Some u) False voteType (c, tbl) of
              (c', tbl') \<Rightarrow> ((w, c') # cs, tbl'))
      else (case user_clicks u voteType cs tbl of
              (cs', tbl') \<Rightarrow> ((w, c) # cs', tbl')))"

fun casts ::
  "(string \<times> int) list \<Rightarrow> (string \<times> Question \<times> VoteButtons) list \<times> vote list
     \<Rightarrow> (string \<times> Question \<times> VoteButtons) list \<times> vote list" where
  "casts [] w = w"
| "casts ((u, voteType) # rest) w = casts rest (user_clicks u voteType (fst w) (snd w))"

fun shown_count :: "string \<times> Question \<times> VoteButtons \<Rightarrow> string \<times> int \<times> int" where
  \<comment> \<open>per user: the page's \<^verbatim>\<open>vote_count\<close> and the buttons' \<^verbatim>\<open>voteCount\<close>\<close>
  "shown_count (u, q, s) = (u, q_vote_count q, voteCount s)"

section \<open>One user on one mounted VoteButtons\<close>

definition in_sync :: "string \<Rightarrow> vote_column \<Rightarrow> string \<Rightarrow> VoteButtons \<times> vote list \<Rightarrow> bool" where
  \<comment> \<open>the cached count is the sum over the target's live rows, and the recorded current
      vote is the user's one live vote on the target (none recorded, none live)\<close>
  "in_sync uid c x st =
     (voteCount (fst st) = vote_sum c x (snd st) \<and>
      votes_of uid c x (snd st) = (case currentUserVote (fst st) of None \<Rightarrow> [] | Some v \<Rightarrow> [v]))"

fun handleVotes ::
  "VoteButtonsProps \<Rightarrow> string \<Rightarrow> (bool \<times> bool \<times> int) list \<Rightarrow> VoteButtons \<times> vote list
     \<Rightarrow> VoteButtons \<times> vote list" where
  \<comment> \<open>calls of \<open>handleVote\<close> one after the other on the same mounted component; each call
      says whether the user is signed in, whether the remote call fails, and the vote type\<close>
  "handleVotes p uid [] st = st"
| "handleVotes p uid ((signed_in, failed, voteType) # rest) st =
     handleVotes p uid rest
       (fst (castVote p (if signed_in then Some uid else None) failed voteType st))"

section \<open>Accepting an answer\<close>

definition handleAccept ::
  "VoteButtonsProps \<Rightarrow> remote_error + bool \<Rightarrow> remote_call list \<times> effect list" where
  \<comment> \<open>\<open>answer\<close> is what \<^verbatim>\<open>supabase.rpc('accept_answer', ...)\<close> answers: an error or \<^verbatim>\<open>data\<close>\<close>
  "handleAccept p answer =
     (if \<not> truthy (answerId p) \<or> \<not> truthy (questionId p) then ([], [])
      else
        (case (questionId p, answerId p) of
           (Some q, Some a) \<Rightarrow>
             ([Rpc_accept_answer q a],
              case answer of
                Inl e \<Rightarrow> [Toast ''Error'' ''Failed to accept answer'']
              | Inr data \<Rightarrow>
                  if data
                  then [OnAccept,
                        Toast ''Answer accepted'' ''This answer has been marked as accepted'']
                  else [Toast ''Error'' ''You can only accept answers to your own questions''])
         | _ \<Rightarrow> ([], [])))"

record tables =
  t_questions :: "Question list"
  t_answers :: "Answer list"

text \<open>
  Modelled from the spec: the remote procedure \<^verbatim>\<open>accept_answer\<close> is only declared in the
  sources (arguments \<^verbatim>\<open>question_id_param\<close>, \<^verbatim>\<open>answer_id_param\<close>, returns boolean); its
  body is missing. The spec's contract: the requester must equal the question's author,
  the question's accepted answer must currently be null, and the answer must belong to
  the question; on success it sets the question's accepted answer and the answer's
  accepted flag and returns true; on any precondition failure it performs no mutation and
  returns false.
\<close>

definition accept_answer :: "string \<Rightarrow> string \<Rightarrow> string \<Rightarrow> tables \<Rightarrow> tables \<times> bool" where
  "accept_answer requester qid aid db =
     (case (find (\<lambda>q. q_id q = qid) (t_questions db), find (\<lambda>a. a_id a = aid) (t_answers db)) of
        (Some q, Some a) \<Rightarrow>
          if requester = q_user_id q \<and> q_accepted_answer_id q = None \<and> a_question_id a = qid
          then
            (db\<lparr>t_questions :=
                   map (\<lambda>r. if q_id r = qid then r\<lparr>q_accepted_answer_id := Some aid\<rparr> else r)
                     (t_questions db),
                 t_answers :=
                   map (\<lambda>r. if a_id r = aid then r\<lparr>a_is_accepted := Some True\<rparr> else r)
                     (t_answers db)\<rparr>,
             True)
          else (db, False)
      | _ \<Rightarrow> (db, False))"

section \<open>QuestionDetail: the answer list and the answer form\<close>

text \<open>
  The page's state. \<open>user\<close> is set by \<open>checkAuth\<close>, which runs when the page loads (and
  when the route's \<^verbatim>\<open>id\<close> changes) and stores the user of the session it finds; the page
  has no listener for later changes of the session.
\<close>

record QuestionDetail =
  question :: "Question option"
  answers :: "Answer list"
  newAnswer :: utf16
  loading :: bool
  submitting :: bool
  user :: "string option"
















definition error_text :: "string option \<Rightarrow> string \<Rightarrow> string" where
  \<comment> \<open>\<^verbatim>\<open>error.message || fallback\<close>\<close>
  "error_text message fallback =
     (case message of None \<Rightarrow> fallback | Some m \<Rightarrow> if m = [] then fallback else m)"

definition handleSubmitAnswer ::
  "string \<Rightarrow> remote_error option \<Rightarrow> QuestionDetail
     \<Rightarrow> QuestionDetail \<times> remote_call list \<times> effect list" where
  \<comment> \<open>\<open>qid\<close> is the route's \<^verbatim>\<open>id\<close>, \<open>answer\<close> the error of the insert, if any\<close>
  "handleSubmitAnswer qid answer st =
     (case user st of
        None \<Rightarrow>
          (st, [], [Toast ''Authentication required'' ''Please sign in to post an answer''])
      | Some uid \<Rightarrow>
          if trim (newAnswer st) = [] then
            (st, [], [Toast ''Answer required'' ''Please provide an answer''])
          else
            (let call = Answers_insert (trim (newAnswer st)) qid uid in
             case answer of
               Some (Remote_error message) \<Rightarrow>
                 (st\<lparr>submitting := False\<rparr>, [call],
                  [Toast ''Error'' (error_text message ''Failed to post answer'')])
             | None \<Rightarrow>
                 (st\<lparr>newAnswer := [], submitting := False\<rparr>, [call],
                  [Toast ''Answer posted!'' ''Your answer has been posted successfully'',
                   FetchAnswers, FetchQuestion])))"


section \<open>AskQuestion\<close>

record Tag =
  tag_id :: string
  tag_name :: string
  tag_color :: "string option"

record AskQuestion =
  title :: utf16
  content :: utf16
  selectedTags :: "Tag list"
  ask_loading :: bool
  ask_user :: "string option"

definition handleSubmit ::
  "remote_error + string \<Rightarrow> AskQuestion \<Rightarrow> AskQuestion \<times> remote_call list \<times> effect list" where
  \<comment> \<open>\<open>answer\<close> is what the insert of the question answers: an error or the new row's id\<close>
  "handleSubmit answer st =
     (case ask_user st of
        None \<Rightarrow>
          (st, [], [Toast ''Authentication required'' ''Please sign in to ask a question''])
      | Some uid \<Rightarrow>
          if trim (title st) = [] \<or> trim (content st) = [] then
            (st, [],
             [Toast ''Missing information'' ''Please provide both a title and description''])
          else if length (selectedTags st) = 0 then
            (st, [],
             [Toast ''Tags required'' ''Please add at least one tag to your question''])
          else
            (let call = Questions_insert (trim (title st)) (trim (content st)) uid in
             case answer of
               Inl (Remote_error message) \<Rightarrow>
                 (st\<lparr>ask_loading := False\<rparr>, [call],
                  [Toast ''Error'' (error_text message ''Failed to post question'')])
             | Inr new_id \<Rightarrow>
                 (st\<lparr>ask_loading := False\<rparr>,
                  call # map (\<lambda>t. Question_tags_insert new_id (tag_id t)) (selectedTags st),
                  [Toast ''Question posted!'' ''Your question has been posted successfully'',
                   Navigate (''/question/'' @ new_id)])))"

section \<open>Example rows\<close>

definition question_q1 :: Question where
  "question_q1 =
     \<lparr>q_id = ''q1'', q_user_id = ''carol'', q_vote_count = 0, q_accepted_answer_id = None\<rparr>"

definition question_q2 :: Question where
  "question_q2 =
     \<lparr>q_id = ''q2'', q_user_id = ''erin'', q_vote_count = 0, q_accepted_answer_id = None\<rparr>"

definition answer_a1 :: Answer where
  "answer_a1 =
     \<lparr>a_id = ''a1'', a_question_id = ''q1'', a_user_id = ''dave'', a_content = [102, 105, 114, 115, 116],
      a_vote_count = Some 3, a_is_accepted = Some False, a_created_at = Some 20\<rparr>"



definition answer_a4 :: Answer where
  "answer_a4 =
     \<lparr>a_id = ''a4'', a_question_id = ''q1'', a_user_id = ''alice'', a_content = [102, 111, 117, 114],
      a_vote_count = Some 3, a_is_accepted = Some False, a_created_at = Some 10\<rparr>"


definition answer_a9 :: Answer where
  "answer_a9 =
     \<lparr>a_id = ''a9'', a_question_id = ''q2'', a_user_id = ''dave'', a_content = [111, 116, 104, 101, 114],
      a_vote_count = Some 9, a_is_accepted = Some False, a_created_at = Some 5\<rparr>"



definition open_tables :: tables where
  \<comment> \<open>two questions without an accepted answer; \<open>a9\<close> answers the other question\<close>
  "open_tables =
     \<lparr>t_questions = [question_q1, question_q2],
      t_answers = [answer_a1, answer_a4, answer_a9]\<rparr>"


definition blank_answer_page :: QuestionDetail where
  \<comment> \<open>the answer is a no-break space, a line feed and an ideographic space\<close>
  "blank_answer_page =
     \<lparr>question = Some question_q1, answers = [], newAnswer = [0x00A0, 0x000A, 0x3000],
      loading = False, submitting = False, user = Some ''alice''\<rparr>"


definition blank_title_form :: AskQuestion where
  \<comment> \<open>the title is a no-break space and a space, the description is "How?"\<close>
  "blank_title_form =
     \<lparr>title = [0x00A0, 0x0020], content = [72, 111, 119, 63],
      selectedTags = [\<lparr>tag_id = ''t1'', tag_name = ''css'', tag_color = None\<rparr>],
      ask_loading = False, ask_user = Some ''alice''\<rparr>"

definition two_pages :: "(string \<times> Question \<times> VoteButtons) list \<times> vote list" where
  \<comment> \<open>alice and bob have both opened the question; nobody has voted\<close>
  "two_pages = ([(''alice'', open_page question_q1), (''bob'', open_page question_q1)], [])"

section \<open>Facts about the votes table\<close>

lemmas vote_simps =
  open_page_def mount_def questionVoteProps_def answerVoteProps_def clickQuestionVote_def
  castVote_def handleVote_def or_null_def or_zero_def rerender_def sync_props_def
  target_column_def target_id_def voteData_def truthy_def votes_upsert_def votes_delete_def
  conflicts_def column_def vote_sum_def live_votes_def votes_of_def vote_failed_def Let_def

lemma column_voteData: "column (target_column p) (voteData p uid v) = target_id p"
  by (simp add: column_def target_column_def voteData_def target_id_def)

lemma voteData_fields:
  "v_user_id (voteData p uid v) = uid" "v_vote_type (voteData p uid v) = v"
  by (simp_all add: voteData_def)

lemma delete_sum:
  "vote_sum c x (votes_delete uid c (Some x) tbl)
     = vote_sum c x tbl - sum_list (votes_of uid c x tbl)"
  by (induction tbl) (auto simp: vote_sum_def votes_delete_def votes_of_def live_votes_def)

lemma delete_votes_of: "votes_of uid c x (votes_delete uid c (Some x) tbl) = []"
  by (induction tbl) (auto simp: votes_delete_def votes_of_def live_votes_def)

lemma conflict_iff:
  "column c new = Some x \<Longrightarrow>
   list_ex (conflicts c new) tbl \<longleftrightarrow> votes_of (v_user_id new) c x tbl \<noteq> []"
  by (induction tbl) (auto simp: conflicts_def votes_of_def live_votes_def)

lemma upsert_new_sum:
  "column c new = Some x \<Longrightarrow> votes_of (v_user_id new) c x tbl = [] \<Longrightarrow>
   vote_sum c x (votes_upsert new c tbl) = vote_sum c x tbl + v_vote_type new"
  by (simp add: votes_upsert_def conflict_iff) (simp add: vote_sum_def live_votes_def)

lemma upsert_new_votes_of:
  "column c new = Some x \<Longrightarrow> votes_of (v_user_id new) c x tbl = [] \<Longrightarrow>
   votes_of (v_user_id new) c x (votes_upsert new c tbl) = [v_vote_type new]"
  by (simp add: votes_upsert_def conflict_iff) (simp add: votes_of_def live_votes_def)

lemma overwrite_sum:
  "column c new = Some x \<Longrightarrow>
   vote_sum c x
     (map (\<lambda>r. if conflicts c new r then r\<lparr>v_vote_type := v_vote_type new\<rparr> else r) tbl)
     = vote_sum c x tbl + int (length (votes_of (v_user_id new) c x tbl)) * v_vote_type new
         - sum_list (votes_of (v_user_id new) c x tbl)"
  by (induction tbl)
     (auto simp: vote_sum_def votes_of_def live_votes_def conflicts_def column_def algebra_simps
           split: vote_column.splits)

lemma overwrite_votes_of:
  "column c new = Some x \<Longrightarrow>
   votes_of (v_user_id new) c x
     (map (\<lambda>r. if conflicts c new r then r\<lparr>v_vote_type := v_vote_type new\<rparr> else r) tbl)
     = replicate (length (votes_of (v_user_id new) c x tbl)) (v_vote_type new)"
  by (induction tbl)
     (auto simp: votes_of_def live_votes_def conflicts_def column_def split: vote_column.splits)

lemma upsert_old_sum:
  "column c new = Some x \<Longrightarrow> votes_of (v_user_id new) c x tbl = [old] \<Longrightarrow>
   vote_sum c x (votes_upsert new c tbl) = vote_sum c x tbl + (v_vote_type new - old)"
  by (simp add: votes_upsert_def conflict_iff overwrite_sum)

lemma upsert_old_votes_of:
  "column c new = Some x \<Longrightarrow> votes_of (v_user_id new) c x tbl = [old] \<Longrightarrow>
   votes_of (v_user_id new) c x (votes_upsert new c tbl) = [v_vote_type new]"
  by (simp add: votes_upsert_def conflict_iff overwrite_votes_of)

text \<open>
  One call of \<open>handleVote\<close> keeps the component in step with the rows it writes to, those
  with \<open>target_id p\<close> in the column \<open>target_column p\<close> (for the buttons of an answer on the
  page these are the rows of the enclosing question, see C5): a call without a session or
  with a failing remote call changes neither; the delete branch removes the recorded vote
  from both; the upsert branch adds the new vote to both, or replaces the recorded one in
  both. This holds as long as nothing but \<open>handleVote\<close> changes the component; on the page
  the effect does, after every successful vote.
\<close>

lemma castVote_in_sync:
  assumes "target_id p = Some x" and "in_sync uid (target_column p) x st"
  shows "in_sync uid (target_column p) x
           (fst (castVote p (if signed_in then Some uid else None) failed voteType st))"
proof (cases "signed_in \<and> \<not> failed")
  case False
  with assms(2) show ?thesis
    by (auto simp: castVote_def handleVote_def in_sync_def Let_def)
next
  case True
  note col = column_voteData [of p uid voteType, unfolded assms(1)]
  show ?thesis
  proof (cases "currentUserVote (fst st)")
    case None
    with True assms col show ?thesis
      by (simp add: castVote_def handleVote_def in_sync_def Let_def or_zero_def
            upsert_new_sum [where new = "voteData p uid voteType", unfolded voteData_fields]
            upsert_new_votes_of [where new = "voteData p uid voteType", unfolded voteData_fields])
  next
    case (Some old)
    with True assms col show ?thesis
      by (simp add: castVote_def handleVote_def in_sync_def Let_def or_zero_def
            delete_sum delete_votes_of
            upsert_old_sum [where new = "voteData p uid voteType", unfolded voteData_fields]
            upsert_old_votes_of [where new = "voteData p uid voteType", unfolded voteData_fields])
  qed
qed

lemma handleVotes_in_sync:
  assumes "target_id p = Some x"
  shows "in_sync uid (target_column p) x st \<Longrightarrow>
         in_sync uid (target_column p) x (handleVotes p uid steps st)"
proof (induction steps arbitrary: st)
  case Nil
  then show ?case by simp
next
  case (Cons step steps)
  obtain signed_in failed voteType where step: "step = (signed_in, failed, voteType)"
    by (cases step) auto
  from Cons.prems assms have "in_sync uid (target_column p) x
     (fst (castVote p (if signed_in then Some uid else None) failed voteType st))"
    by (rule castVote_in_sync [rotated])
  then show ?case using Cons.IH step by simp
qed

section \<open>The cached count and the vote rows (C1)\<close>

text \<open>
  With the component changed by \<open>handleVote\<close> alone, the cached count stays the sum over
  the rows the component writes to.
\<close>

lemma handleVote_alone_keeps_count:
  assumes "target_id p = Some x" and "in_sync uid (target_column p) x st"
  shows "voteCount (fst (handleVotes p uid steps st))
           = vote_sum (target_column p) x (snd (handleVotes p uid steps st))"
  using handleVotes_in_sync [OF assms(1), of uid st steps] assms(2)
  by (simp add: in_sync_def)

text \<open>
  Claim C1: for every sequence of castVote calls by any number of distinct users on a
  single target, the cached vote aggregate (\<open>vote_count\<close>) after the sequence equals the
  sum of \<open>vote_type\<close> over all currently-live vote rows for that target.

  The cached count of \<open>handleVote\<close> is the \<open>voteCount\<close> of the mounted component, handed to
  the page as its \<open>vote_count\<close>. Alice alone on the question's page, nobody has voted,
  every remote call succeeds. After \<open>+1\<close> and \<open>+1\<close> the page shows 2 and her one live row
  sums to 1; after \<open>+1\<close> and \<open>-1\<close> the page shows 0 and her one live row sums to \<open>-1\<close>.
\<close>

theorem cached_count_leaves_vote_sum:
  "map shown_count
     (fst (casts [(''alice'', 1), (''alice'', 1)] ([(''alice'', open_page question_q1)], [])))
     = [(''alice'', 2, 2)]
   \<and> vote_sum Question_id ''q1''
        (snd (casts [(''alice'', 1), (''alice'', 1)] ([(''alice'', open_page question_q1)], [])))
       = 1
   \<and> map shown_count
        (fst (casts [(''alice'', 1), (''alice'', - 1)] ([(''alice'', open_page question_q1)], [])))
       = [(''alice'', 0, 0)]
   \<and> vote_sum Question_id ''q1''
        (snd (casts [(''alice'', 1), (''alice'', - 1)] ([(''alice'', open_page question_q1)], [])))
       = - 1"
  by (simp add: question_q1_def vote_simps)

section \<open>Switching and toggling a vote (C3, C4)\<close>

text \<open>
  What the two branches of \<open>handleVote\<close> do to the component when the recorded current
  vote is the user's live vote: a cast of the opposite type moves the count by the
  difference of the types, and a second cast of the same type undoes the first.
\<close>

lemma handleVote_switch:
  "currentUserVote s = Some old \<Longrightarrow> old \<noteq> voteType \<Longrightarrow>
   fst (handleVote p (Some uid) False voteType s)
     = s\<lparr>voteCount := voteCount s + (voteType - old), currentUserVote := Some voteType,
         isVoting := False\<rparr>"
  by (simp add: handleVote_def or_zero_def Let_def)

lemma handleVote_same_type_twice:
  "currentUserVote s = None \<Longrightarrow>
   fst (handleVote p (Some uid) False voteType
          (fst (handleVote p (Some uid) False voteType s)))
     = s\<lparr>isVoting := False\<rparr>"
  by (simp add: handleVote_def or_zero_def Let_def)

text \<open>
  With the components of alice and bob keeping what \<open>handleVote\<close> recorded, the rows
  follow the worked trace: the sums are 1, 2, 0 and 1.
\<close>

lemma handleVote_trace_with_kept_state:
  "vote_sum Question_id ''q1'' (snd (handleVotes (questionVoteProps question_q1) ''alice''
      [(True, False, 1)] (mount (questionVoteProps question_q1), []))) = 1
   \<and> vote_sum Question_id ''q1''
        (snd (handleVotes (questionVoteProps question_q1) ''bob'' [(True, False, 1)]
          (mount (questionVoteProps question_q1),
           snd (handleVotes (questionVoteProps question_q1) ''alice''
             [(True, False, 1)] (mount (questionVoteProps question_q1), []))))) = 2
   \<and> vote_sum Question_id ''q1''
        (snd (handleVotes (questionVoteProps question_q1) ''alice'' [(True, False, - 1)]
          (fst (handleVotes (questionVoteProps question_q1) ''alice''
             [(True, False, 1)] (mount (questionVoteProps question_q1), [])),
           snd (handleVotes (questionVoteProps question_q1) ''bob'' [(True, False, 1)]
             (mount (questionVoteProps question_q1),
              snd (handleVotes (questionVoteProps question_q1) ''alice''
                [(True, False, 1)] (mount (questionVoteProps question_q1), []))))))) = 0
   \<and> vote_sum Question_id ''q1''
        (snd (handleVotes (questionVoteProps question_q1) ''alice''
          [(True, False, - 1), (True, False, - 1)]
          (fst (handleVotes (questionVoteProps question_q1) ''alice''
             [(True, False, 1)] (mount (questionVoteProps question_q1), [])),
           snd (handleVotes (questionVoteProps question_q1) ''bob'' [(True, False, 1)]
             (mount (questionVoteProps question_q1),
              snd (handleVotes (questionVoteProps question_q1) ''alice''
                [(True, False, 1)] (mount (questionVoteProps question_q1), []))))))) = 1"
  by (simp add: question_q1_def vote_simps)

text \<open>
  On the page the recorded current vote does not survive a successful cast. The new count
  goes to the parent, comes back as a changed \<open>currentVoteCount\<close>, and the effect sets the
  recorded vote to \<^verbatim>\<open>userVote || null\<close>; QuestionDetail passes no \<open>userVote\<close>. So a page
  that records no vote records none after the click either, and every successful click
  takes the upsert branch and adds the vote type to the count.
\<close>

lemma clickQuestionVote_forgets:
  assumes "voteCount s = q_vote_count q" and "currentUserVote s = None" and "voteType \<noteq> 0"
  shows "fst (clickQuestionVote (Some uid) False voteType ((q, s), tbl))
     = (q\<lparr>q_vote_count := q_vote_count q + voteType\<rparr>,
        \<lparr>voteCount = q_vote_count q + voteType, currentUserVote = None, isVoting = False\<rparr>)"
  using assms
  by (simp add: clickQuestionVote_def castVote_def handleVote_def Let_def or_zero_def
        rerender_def sync_props_def questionVoteProps_def or_null_def)

text \<open>
  Claim C3: for every user with an existing vote of the opposite voteType on a target,
  castVote with the new voteType replaces the existing vote row and changes the aggregate
  by (newType - oldType), i.e. exactly plus or minus 2; in particular the spec's worked
  trace (0, +1 by A gives 1, +1 by B gives 2, A switches to -1 giving 0, A casts -1 again
  giving 1) is reproduced.

  The trace on the pages of alice and bob, every remote call succeeding. The sums over
  the rows are 1, 2, 0 and then 0 again: alice's second \<open>-1\<close> is upserted, not deleted.
  Her switch to \<open>-1\<close> replaces her row (the sum moves by 2) but moves her cached count by
  1 only, from 1 to 0, and the second \<open>-1\<close> moves it to \<open>-1\<close>.
\<close>

theorem worked_trace_on_the_pages:
  "vote_sum Question_id ''q1'' (snd (casts [(''alice'', 1)] two_pages)) = 1
   \<and> vote_sum Question_id ''q1'' (snd (casts [(''alice'', 1), (''bob'', 1)] two_pages)) = 2
   \<and> vote_sum Question_id ''q1''
        (snd (casts [(''alice'', 1), (''bob'', 1), (''alice'', - 1)] two_pages)) = 0
   \<and> vote_sum Question_id ''q1''
        (snd (casts [(''alice'', 1), (''bob'', 1), (''alice'', - 1), (''alice'', - 1)]
               two_pages)) = 0
   \<and> map shown_count (fst (casts [(''alice'', 1), (''bob'', 1)] two_pages))
        = [(''alice'', 1, 1), (''bob'', 1, 1)]
   \<and> map shown_count (fst (casts [(''alice'', 1), (''bob'', 1), (''alice'', - 1)] two_pages))
        = [(''alice'', 0, 0), (''bob'', 1, 1)]
   \<and> map shown_count
        (fst (casts [(''alice'', 1), (''bob'', 1), (''alice'', - 1), (''alice'', - 1)] two_pages))
        = [(''alice'', - 1, - 1), (''bob'', 1, 1)]"
  by (simp add: two_pages_def question_q1_def vote_simps)

text \<open>
  Claim C4: for every user and target, casting the same voteType twice in succession
  (with no interleaved actions by that user on that target) deletes the vote row and
  returns the aggregate to its value before the first cast, leaving no live vote row for
  that user on that target.

  Alice alone on the question's page, nobody has voted, she casts \<open>+1\<close> twice and both
  remote calls succeed: her row is still live, and the page shows 2.
\<close>

theorem same_vote_twice_on_the_page:
  "casts [(''alice'', 1), (''alice'', 1)] ([(''alice'', open_page question_q1)], [])
     = ([(''alice'', question_q1\<lparr>q_vote_count := 2\<rparr>,
          \<lparr>voteCount = 2, currentUserVote = None, isVoting = False\<rparr>)],
        [\<lparr>v_user_id = ''alice'', v_question_id = Some ''q1'', v_answer_id = None,
           v_vote_type = 1\<rparr>])"
  by (simp add: question_q1_def vote_simps)

section \<open>The row a vote on an answer writes (C5)\<close>

text \<open>
  The row that \<open>handleVote\<close> writes sets one of the two columns and leaves the other out.
\<close>

lemma voteData_one_column:
  "truthy (questionId p) \<or> truthy (answerId p) \<Longrightarrow>
   (v_question_id (voteData p uid v) = None) \<noteq> (v_answer_id (voteData p uid v) = None)"
  by (auto simp: voteData_def truthy_def split: option.splits)

text \<open>
  Claim C5: every vote row written by castVote sets exactly one of \<open>question_id\<close> and
  \<open>answer_id\<close>, and the one it sets identifies the caller's intended target: when the
  target is an Answer, the written row references that answer's id (never the enclosing
  question's id).

  The buttons of an answer get both ids from QuestionDetail, and \<open>handleVote\<close> looks at
  \<open>questionId\<close> first. Alice's \<open>+1\<close> on answer \<open>a1\<close> of question \<open>q1\<close> is upserted as a row
  with \<open>question_id = q1\<close> and no \<open>answer_id\<close>, on the conflict columns of the question.
\<close>

theorem answer_vote_written_on_question:
  "fst (snd (handleVote (answerVoteProps (Some ''alice'') question_q1 answer_a1)
               (Some ''alice'') False 1
               (mount (answerVoteProps (Some ''alice'') question_q1 answer_a1))))
     = [Auth_getUser,
        Votes_upsert
          \<lparr>v_user_id = ''alice'', v_question_id = Some ''q1'', v_answer_id = None,
           v_vote_type = 1\<rparr>
          Question_id]"
  by (simp add: question_q1_def answer_a1_def vote_simps)

section \<open>Rejections before any mutation (C8, C9, C10)\<close>




text \<open>
  Claim C9: for every submission with invalid input (a question with empty, after
  trimming, title or content or zero selected tags, or an answer with empty, after
  trimming, content) validation fails locally and no remote call is made, leaving all
  state unchanged.

  Blank is what \<^verbatim>\<open>trim()\<close> empties: any run of the language's white space and line
  terminators, the no-break space and the other space separators included. Whatever the
  remote side would answer, the form's state is unchanged, no call is issued and one
  notice is shown: the validation notice when the form holds a user (for a form without
  one the check for the user comes first and shows its notice).
\<close>

theorem invalid_input_blocked:
  "(trim (title a) = [] \<or> trim (content a) = [] \<or> selectedTags a = [] \<longrightarrow>
      fst (handleSubmit r a) = a \<and> fst (snd (handleSubmit r a)) = []
      \<and> snd (snd (handleSubmit r a))
          = [if ask_user a = None
             then Toast ''Authentication required'' ''Please sign in to ask a question''
             else if trim (title a) = [] \<or> trim (content a) = []
             then Toast ''Missing information'' ''Please provide both a title and description''
             else Toast ''Tags required'' ''Please add at least one tag to your question''])
   \<and> (trim (newAnswer d) = [] \<longrightarrow>
      fst (handleSubmitAnswer qid e d) = d \<and> fst (snd (handleSubmitAnswer qid e d)) = []
      \<and> snd (snd (handleSubmitAnswer qid e d))
          = [if user d = None
             then Toast ''Authentication required'' ''Please sign in to post an answer''
             else Toast ''Answer required'' ''Please provide an answer''])"
  by (auto simp: handleSubmit_def handleSubmitAnswer_def split: option.splits)

theorem invalid_input_blocked_witness:
  "trim (title blank_title_form) = []
   \<and> handleSubmit (Inr ''q7'') blank_title_form
       = (blank_title_form, [],
          [Toast ''Missing information'' ''Please provide both a title and description''])
   \<and> trim (newAnswer blank_answer_page) = []
   \<and> handleSubmitAnswer ''q1'' None blank_answer_page
       = (blank_answer_page, [], [Toast ''Answer required'' ''Please provide an answer''])"
proof -
  have t: "trim (title blank_title_form) = []"
    by (simp add: blank_title_form_def trim_def is_space_def)
  have n: "trim (newAnswer blank_answer_page) = []"
    by (simp add: blank_answer_page_def trim_def is_space_def)
  have u: "ask_user blank_title_form = Some ''alice''" "user blank_answer_page = Some ''alice''"
    by (simp_all add: blank_title_form_def blank_answer_page_def)
  show ?thesis
    using t n u
      invalid_input_blocked [of blank_title_form "Inr ''q7''" blank_answer_page "''q1''" None]
    by (simp add: prod_eq_iff)
qed

text \<open>
  Claim C10: if the remote vote mutation (delete or upsert) fails with an error, castVote
  leaves the locally cached vote count and the user's recorded current vote unchanged; no
  optimistic update is applied before the remote call succeeds.

  With a signed-in user and a failing remote call the component (entered with
  \<open>isVoting\<close> false), the table and the page are as before, and only the failure notice
  is shown: the parent's \<open>onVoteChange\<close> is not called.
\<close>

theorem remote_failure_keeps_state:
  assumes "\<not> isVoting s"
  shows "castVote p (Some uid) True voteType (s, tbl) = ((s, tbl), [vote_failed])
         \<and> clickQuestionVote (Some uid) True voteType ((q, s), tbl) = ((q, s), tbl)"
  using assms
  by (simp add: castVote_def handleVote_def clickQuestionVote_def rerender_def Let_def
        vote_failed_def)

theorem remote_failure_keeps_state_witness:
  "\<not> isVoting \<lparr>voteCount = 4, currentUserVote = Some 1, isVoting = False\<rparr>
   \<and> castVote (questionVoteProps question_q1) (Some ''alice'') True (- 1)
        (\<lparr>voteCount = 4, currentUserVote = Some 1, isVoting = False\<rparr>, [])
       = ((\<lparr>voteCount = 4, currentUserVote = Some 1, isVoting = False\<rparr>, []), [vote_failed])
   \<and> castVote (questionVoteProps question_q1) (Some ''alice'') True 1
        (\<lparr>voteCount = 4, currentUserVote = Some 1, isVoting = False\<rparr>, [])
       = ((\<lparr>voteCount = 4, currentUserVote = Some 1, isVoting = False\<rparr>, []), [vote_failed])"
proof -
  have h: "\<not> isVoting \<lparr>voteCount = 4, currentUserVote = Some 1, isVoting = False\<rparr>"
    by simp
  show ?thesis
    using h
      remote_failure_keeps_state [OF h, of "questionVoteProps question_q1" "''alice''" "- 1" "[]"
        question_q1]
      remote_failure_keeps_state [OF h, of "questionVoteProps question_q1" "''alice''" 1 "[]"
        question_q1]
    by simp
qed

section \<open>Accepting an answer (C2, C6)\<close>

lemma find_map_keep:
  assumes "\<And>r. P (f r) = P r"
  shows "find P (map f xs) = map_option f (find P xs)"
  using assms by (induction xs) auto

lemma find_key: "find P xs = Some x \<Longrightarrow> P x"
  by (induction xs) (auto split: if_splits)

lemma accept_answer_taken:
  "find (\<lambda>q. q_id q = qid) (t_questions db) = Some q \<Longrightarrow> q_accepted_answer_id q \<noteq> None \<Longrightarrow>
   accept_answer requester qid aid db = (db, False)"
  by (auto simp: accept_answer_def split: option.splits)

lemma accept_answer_first:
  assumes "find (\<lambda>q. q_id q = qid) (t_questions db) = Some q"
    and "q_user_id q = requester"
    and "q_accepted_answer_id q = None"
    and "find (\<lambda>a. a_id a = aid) (t_answers db) = Some a"
    and "a_question_id a = qid"
  shows "accept_answer requester qid aid db =
      (db\<lparr>t_questions :=
            map (\<lambda>r. if q_id r = qid then r\<lparr>q_accepted_answer_id := Some aid\<rparr> else r)
              (t_questions db),
          t_answers :=
            map (\<lambda>r. if a_id r = aid then r\<lparr>a_is_accepted := Some True\<rparr> else r)
              (t_answers db)\<rparr>,
       True)"
  using assms by (simp add: accept_answer_def)

lemma handleAccept_false:
  "snd (handleAccept p (Inr False))
     = (if truthy (answerId p) \<and> truthy (questionId p)
        then [Toast ''Error'' ''You can only accept answers to your own questions'']
        else [])"
  by (auto simp: handleAccept_def truthy_def split: option.splits)

text \<open>
  Claim C2: when acceptAnswer is called twice for the same question with different answer
  ids, the first call succeeds (given the requester is the question's author and no
  answer is yet accepted) and the second call returns false and leaves all state
  unchanged; precondition failure is reported as the boolean false, not an exception.

  The answer ids are ids of answers to that question, so the precondition of the first
  call holds as the spec states it: the requester is the author, no answer is accepted
  yet, and the answer belongs to the question. Then the first call returns true, makes
  the answer the question's accepted answer and flags it accepted; the second call, with
  any answer id, returns false and leaves all state unchanged. The false is a value:
  \<open>handleAccept\<close> shows the "You can only accept answers to your own questions" notice for
  it, does not call \<open>onAccept\<close>, and does not take the path of a failed call.
\<close>

theorem accept_answer_twice:
  assumes "find (\<lambda>q. q_id q = qid) (t_questions db) = Some q"
    and "q_user_id q = requester"
    and "q_accepted_answer_id q = None"
    and "find (\<lambda>a. a_id a = aid) (t_answers db) = Some a"
    and "a_question_id a = qid"
  shows "snd (accept_answer requester qid aid db)
     \<and> find (\<lambda>q. q_id q = qid) (t_questions (fst (accept_answer requester qid aid db)))
         = Some (q\<lparr>q_accepted_answer_id := Some aid\<rparr>)
     \<and> find (\<lambda>a. a_id a = aid) (t_answers (fst (accept_answer requester qid aid db)))
         = Some (a\<lparr>a_is_accepted := Some True\<rparr>)
     \<and> accept_answer requester qid aid' (fst (accept_answer requester qid aid db))
         = (fst (accept_answer requester qid aid db), False)
     \<and> snd (handleAccept p
              (Inr (snd (accept_answer requester qid aid'
                           (fst (accept_answer requester qid aid db))))))
         = (if truthy (answerId p) \<and> truthy (questionId p)
            then [Toast ''Error'' ''You can only accept answers to your own questions'']
            else [])"
proof -
  let ?db = "fst (accept_answer requester qid aid db)"
  let ?f = "\<lambda>r. if q_id r = qid then r\<lparr>q_accepted_answer_id := Some aid\<rparr> else r"
  note first = accept_answer_first [OF assms]
  have key: "q_id q = qid"
    using find_key [OF assms(1)] .
  have "find (\<lambda>q. q_id q = qid) (map ?f (t_questions db))
          = map_option ?f (find (\<lambda>q. q_id q = qid) (t_questions db))"
    by (rule find_map_keep) simp
  with assms(1) key
  have found: "find (\<lambda>q. q_id q = qid) (t_questions ?db)
                 = Some (q\<lparr>q_accepted_answer_id := Some aid\<rparr>)"
    by (simp add: first)
  have second: "accept_answer requester qid aid' ?db = (?db, False)"
    by (rule accept_answer_taken [OF found]) simp
  let ?g = "\<lambda>r. if a_id r = aid then r\<lparr>a_is_accepted := Some True\<rparr> else r"
  have "find (\<lambda>a. a_id a = aid) (map ?g (t_answers db))
          = map_option ?g (find (\<lambda>a. a_id a = aid) (t_answers db))"
    by (rule find_map_keep) simp
  with assms(4) find_key [OF assms(4)]
  have flagged: "find (\<lambda>a. a_id a = aid) (t_answers ?db) = Some (a\<lparr>a_is_accepted := Some True\<rparr>)"
    by (simp add: first)
  have "snd (accept_answer requester qid aid db)"
    by (simp add: first)
  with second found flagged show ?thesis
    by (simp add: handleAccept_false)
qed

theorem accept_answer_twice_witness:
  "find (\<lambda>q. q_id q = ''q1'') (t_questions open_tables) = Some question_q1
   \<and> q_user_id question_q1 = ''carol''
   \<and> q_accepted_answer_id question_q1 = None
   \<and> find (\<lambda>a. a_id a = ''a1'') (t_answers open_tables) = Some answer_a1
   \<and> a_question_id answer_a1 = ''q1''
   \<and> snd (accept_answer ''carol'' ''q1'' ''a1'' open_tables)
   \<and> accept_answer ''carol'' ''q1'' ''a4'' (fst (accept_answer ''carol'' ''q1'' ''a1'' open_tables))
       = (fst (accept_answer ''carol'' ''q1'' ''a1'' open_tables), False)"
proof -
  have h1: "find (\<lambda>q. q_id q = ''q1'') (t_questions open_tables) = Some question_q1"
    by (simp add: open_tables_def question_q1_def)
  have h2: "q_user_id question_q1 = ''carol''"
    by (simp add: question_q1_def)
  have h3: "q_accepted_answer_id question_q1 = None"
    by (simp add: question_q1_def)
  have h4: "find (\<lambda>a. a_id a = ''a1'') (t_answers open_tables) = Some answer_a1"
    by (simp add: open_tables_def answer_a1_def)
  have h5: "a_question_id answer_a1 = ''q1''"
    by (simp add: answer_a1_def)
  show ?thesis
    using h1 h2 h3 h4 h5 accept_answer_twice [OF h1 h2 h3 h4 h5, of "''a4''"]
    by blast
qed

text \<open>
  Claim C6: for every requester who is not the question's author, acceptAnswer(requesterId,
  questionId, answerId) returns false, regardless of whether the other preconditions (no
  accepted answer yet, answer belongs to question) hold.

  Nothing is assumed of the answer or of the accepted answer; the tables are unchanged.
  On the page such a requester gets \<open>canAccept = false\<close>, which disables the button.
\<close>

theorem accept_answer_non_author:
  assumes "\<forall>q. find (\<lambda>q. q_id q = qid) (t_questions db) = Some q \<longrightarrow> q_user_id q \<noteq> requester"
  shows "accept_answer requester qid aid db = (db, False)
         \<and> (\<forall>q a. q_user_id q \<noteq> requester \<longrightarrow>
               \<not> canAccept (answerVoteProps (Some requester) q a))"
  using assms by (auto simp: accept_answer_def answerVoteProps_def split: option.splits)

theorem accept_answer_non_author_witness:
  "find (\<lambda>q. q_id q = ''q1'') (t_questions open_tables) = Some question_q1
   \<and> q_user_id question_q1 \<noteq> ''dave''
   \<and> q_accepted_answer_id question_q1 = None
   \<and> find (\<lambda>a. a_id a = ''a1'') (t_answers open_tables) = Some answer_a1
   \<and> a_question_id answer_a1 = ''q1''
   \<and> accept_answer ''dave'' ''q1'' ''a1'' open_tables = (open_tables, False)
   \<and> \<not> canAccept (answerVoteProps (Some ''dave'') question_q1 answer_a1)"
proof -
  have h1: "find (\<lambda>q. q_id q = ''q1'') (t_questions open_tables) = Some question_q1"
    by (simp add: open_tables_def question_q1_def)
  have h2: "q_user_id question_q1 \<noteq> ''dave''"
    by (simp add: question_q1_def)
  have h: "\<forall>q. find (\<lambda>q. q_id q = ''q1'') (t_questions open_tables) = Some q
             \<longrightarrow> q_user_id q \<noteq> ''dave''"
    using h1 h2 by simp
  have rest: "q_accepted_answer_id question_q1 = None"
    "find (\<lambda>a. a_id a = ''a1'') (t_answers open_tables) = Some answer_a1"
    "a_question_id answer_a1 = ''q1''"
    by (simp_all add: open_tables_def question_q1_def answer_a1_def)
  show ?thesis
    using h1 h2 rest accept_answer_non_author [OF h, of "''a1''"]
    by blast
qed

section \<open>The order of the answer list (C7)\<close>
















end
